theory Spec2Isabelle
  imports Main "HOL-Library.Word"
begin

section \<open>The HTTP/3 client of http3/client.go\<close>

text \<open>
  The client talks to three collaborators that are not part of client.go: the QUIC
  transport (connections and streams), the frame parser and request writer of the same
  package, and the QPACK decoder. Every call to one of them is recorded as an
  \<open>event\<close> in a trace, in program order, and what the collaborator answers is an input
  of the model (the records \<open>exchange\<close> and \<open>uniStream\<close> below).
\<close>

subsection \<open>Package-level declarations used by client.go\<close>

type_synonym errorCode = "64 word"

text \<open>
  The error codes (error_codes.go), the stream type identifiers (server.go) and the text
  of the sentinel error \<open>errHijacked\<close> (frames.go) are constants of the package that
  client.go only names. They are parameters of the model: every function that uses one
  takes the record \<open>pk\<close>, and nothing is assumed about their values.
\<close>

record package =
  errorNoError :: errorCode
  errorGeneralProtocolError :: errorCode
  errorInternalError :: errorCode
  errorStreamCreationError :: errorCode
  errorFrameUnexpected :: errorCode
  errorFrameError :: errorCode
  errorIDError :: errorCode
  errorSettingsError :: errorCode
  errorMissingSettings :: errorCode
  errorRequestCanceled :: errorCode
  errorRequestIncomplete :: errorCode
  streamTypeControlStream :: "64 word"
  streamTypePushStream :: "64 word"
  streamTypeQPACKEncoderStream :: "64 word"
  streamTypeQPACKDecoderStream :: "64 word"
  errHijackedText :: string

text \<open>
  A Go \<open>error\<close> value: the sentinel \<open>errHijacked\<close>, which the code compares by identity,
  or any other error, given by the text its \<open>Error()\<close> method returns. A nil error is
  \<open>None\<close> of \<open>error option\<close>.
\<close>

datatype error = errHijacked | Err string

fun ErrorText :: "package \<Rightarrow> error \<Rightarrow> string" where
  "ErrorText pk errHijacked = errHijackedText pk"
| "ErrorText pk (Err m) = m"

text \<open>
  Modelled from the spec: \<open>requestError\<close>, \<open>newStreamError\<close> and \<open>newConnError\<close> are
  declared in server.go. client.go reads the three fields \<open>err\<close>, \<open>streamErr\<close> and
  \<open>connErr\<close> and builds the zero value \<open>requestError{}\<close>; the spec has an error carry
  one classification, stream-scoped or connection-scoped, so each constructor sets its own
  code and leaves the other at the zero value.
\<close>

record requestError =
  err :: "error option"
  streamErr :: errorCode
  connErr :: errorCode

definition noRequestError :: requestError where
  "noRequestError = \<lparr>err = None, streamErr = 0, connErr = 0\<rparr>"

definition newStreamError :: "errorCode \<Rightarrow> error \<Rightarrow> requestError" where
  "newStreamError code e = \<lparr>err = Some e, streamErr = code, connErr = 0\<rparr>"

definition newConnError :: "errorCode \<Rightarrow> error \<Rightarrow> requestError" where
  "newConnError code e = \<lparr>err = Some e, streamErr = 0, connErr = code\<rparr>"

text \<open>
  Modelled from the spec: the frames \<open>parseNextFrame\<close> (frames.go) can return. client.go
  type-asserts on \<open>*headersFrame\<close> (field \<open>Length\<close>) and \<open>*settingsFrame\<close> (fields
  \<open>Datagram\<close>, \<open>Other\<close>); the spec's Frame union adds the data frame, and an
  unknown frame that the parser skips or fails on and never returns.
\<close>

datatype frame =
    dataFrame "64 word"
  | headersFrame "64 word"
  | settingsFrame bool "64 word \<rightharpoonup> 64 word"

subsection \<open>Options and client state\<close>

text \<open>
  The hijack callbacks get the frame type, the connection and the stream; the model keeps
  the frame type and the two results \<open>(hijacked, err)\<close>.
\<close>

type_synonym hijacker = "64 word \<Rightarrow> bool \<times> error option"

record roundTripperOpts =
  DisableCompression :: bool
  EnableDatagram :: bool
  MaxHeaderBytes :: "64 word"
  AdditionalSettings :: "64 word \<rightharpoonup> 64 word"
  StreamHijacker :: "hijacker option"
  UniStreamHijacker :: "hijacker option"

text \<open>
  \<open>conn\<close> is the interface value \<open>c.conn\<close>: \<open>None\<close> is nil, \<open>Some q\<close> a connection
  handle. \<open>dialOnce\<close> is true once \<open>sync.Once\<close> has run.
\<close>

record client =
  opts :: roundTripperOpts
  dialOnce :: bool
  handshakeErr :: "error option"
  hostname :: string
  conn :: "nat option"

subsection \<open>Events\<close>

datatype event =
    Dial
  | GoSetupConn
  | GoHandleBidirectionalStreams
  | GoHandleUnidirectionalStreams
  | WaitHandshakeOrContext
  | OpenStreamSync
  | GoCancellationWatcher
  | WriteRequest string bool
  | ParseNextFrame bool
  | MakeHeaderBlock nat
  | ReadFull nat
  | DecodeFull
  | ConnectionState
  | CloseReqDone
  | CancelWrite errorCode
  | CancelRead errorCode
  | CloseWithError errorCode string
  | ReadStreamType

subsection \<open>Close and maxHeaderBytes\<close>

text \<open>
  \<open>Close\<close> returns what the transport's \<open>CloseWithError\<close> returns (the input
  \<open>answer\<close>) and leaves the client as it is.
\<close>

definition Close :: "package \<Rightarrow> client \<Rightarrow> error option \<Rightarrow> error option \<times> event list \<times> client" where
  "Close pk c answer =
     (case conn c of
        None \<Rightarrow> (None, [], c)
      | Some q \<Rightarrow> (answer, [CloseWithError (errorNoError pk) ''''], c))"

definition defaultMaxResponseHeaderBytes :: "64 word" where
  "defaultMaxResponseHeaderBytes = push_bit 20 (10 * 1)"

text \<open>\<open>MaxHeaderBytes\<close> is an int64 (read with \<open>sint\<close>); the result is a uint64.\<close>

definition maxHeaderBytes :: "client \<Rightarrow> 64 word" where
  "maxHeaderBytes c =
     (if sint (MaxHeaderBytes (opts c)) \<le> 0 then defaultMaxResponseHeaderBytes
      else MaxHeaderBytes (opts c))"

subsection \<open>Go library functions the client calls\<close>

text \<open>
  \<open>textproto.CanonicalMIMEHeaderKey\<close>: a key with a byte that is not a token character
  is returned unchanged; otherwise the first letter and every letter after a hyphen is
  upper-cased and every other letter lower-cased.
\<close>

definition validHeaderFieldByte :: "char \<Rightarrow> bool" where
  "validHeaderFieldByte c =
     (let n = (of_char c :: nat) in
        (48 \<le> n \<and> n \<le> 57) \<or> (65 \<le> n \<and> n \<le> 90) \<or> (97 \<le> n \<and> n \<le> 122) \<or>
        n \<in> {33, 35, 36, 37, 38, 39, 42, 43, 45, 46, 94, 95, 96, 124, 126})"

definition toLower :: nat where
  "toLower = 32"

fun canonicalLoop :: "bool \<Rightarrow> string \<Rightarrow> string" where
  "canonicalLoop upper [] = []"
| "canonicalLoop upper (c # cs) =
     (let n = (of_char c :: nat);
          c' = (if upper \<and> 97 \<le> n \<and> n \<le> 122 then char_of (n - toLower)
                else if \<not> upper \<and> 65 \<le> n \<and> n \<le> 90 then char_of (n + toLower)
                else c)
      in c' # canonicalLoop (c' = CHR ''-'') cs)"

definition CanonicalMIMEHeaderKey :: "string \<Rightarrow> string" where
  "CanonicalMIMEHeaderKey s =
     (if list_all validHeaderFieldByte s then canonicalLoop True s else s)"

text \<open>\<open>http.Header\<close> is a \<open>map[string][]string\<close>; \<open>Add\<close>, \<open>Get\<close> and \<open>Del\<close> canonicalise the key.\<close>

type_synonym header = "string \<rightharpoonup> string list"

definition header_Add :: "header \<Rightarrow> string \<Rightarrow> string \<Rightarrow> header" where
  "header_Add h k v =
     (let ck = CanonicalMIMEHeaderKey k
      in h(ck \<mapsto> (case h ck of None \<Rightarrow> [] | Some vs \<Rightarrow> vs) @ [v]))"

definition header_Get :: "header \<Rightarrow> string \<Rightarrow> string" where
  "header_Get h k =
     (case h (CanonicalMIMEHeaderKey k) of
        None \<Rightarrow> ''''
      | Some [] \<Rightarrow> ''''
      | Some (v # vs) \<Rightarrow> v)"

definition header_Del :: "header \<Rightarrow> string \<Rightarrow> header" where
  "header_Del h k = h(CanonicalMIMEHeaderKey k := None)"

text \<open>
  \<open>strconv.ParseInt(s, 10, bitSize)\<close>: an optional sign, then one or more decimal digits;
  a value outside the signed range of \<open>bitSize\<close> bits is an error as well.
  \<open>strconv.Atoi(s)\<close> is \<open>ParseInt(s, 10, 0)\<close>, the size of \<open>int\<close>, taken as 64 bits.
\<close>

definition isDigit :: "char \<Rightarrow> bool" where
  "isDigit c = (48 \<le> (of_char c :: nat) \<and> (of_char c :: nat) \<le> 57)"

fun digitsValue :: "nat \<Rightarrow> string \<Rightarrow> nat" where
  "digitsValue acc [] = acc"
| "digitsValue acc (c # cs) = digitsValue (acc * 10 + (of_char c - 48)) cs"

definition ParseInt :: "string \<Rightarrow> nat \<Rightarrow> int option" where
  "ParseInt s bitSize =
     (case s of
        [] \<Rightarrow> None
      | c # cs \<Rightarrow>
          (let neg = (c = CHR ''-'');
               ds = (if c = CHR ''+'' \<or> c = CHR ''-'' then cs else s)
           in if ds = [] \<or> \<not> list_all isDigit ds then None
              else (let n = digitsValue 0 ds; cutoff = (2::nat) ^ (bitSize - 1)
                    in if \<not> neg \<and> n \<ge> cutoff then None
                       else if neg \<and> n > cutoff then None
                       else Some (if neg then - int n else int n))))"

definition Atoi :: "string \<Rightarrow> int option" where
  "Atoi s = ParseInt s 64"

text \<open>\<open>%d\<close> of \<open>fmt\<close> for an unsigned value.\<close>

fun showNat :: "nat \<Rightarrow> string" where
  "showNat n =
     (if n < 10 then [char_of (48 + n)]
      else showNat (n div 10) @ [char_of (48 + n mod 10)])"

declare showNat.simps [simp del]

subsection \<open>Requests, responses and the answers of the collaborators\<close>

definition MethodGet0RTT :: string where
  "MethodGet0RTT = ''GET_0RTT''"

text \<open>Of \<open>http.Request\<close>, the fields client.go reads: \<open>Method\<close>, \<open>Host\<close> and \<open>Header\<close>.\<close>

record request =
  Method :: string
  Host :: string
  ReqHeader :: header

text \<open>\<open>qpack.HeaderField\<close>.\<close>

record headerField =
  Name :: string
  Value :: string

text \<open>
  The response body is the stream's body (\<open>newResponseBody\<close>) or a gzip reader around it
  (\<open>newGzipReader\<close>).
\<close>

datatype body = responseBody | gzipReader body

text \<open>
  Of \<open>http.Response\<close>, the fields client.go writes. The zero value has status 0, content
  length 0 and a nil body.
\<close>

record response =
  Proto :: string
  ProtoMajor :: int
  Header :: header
  TLS :: nat
  StatusCode :: int
  Status :: string
  ContentLength :: int
  Body :: "body option"
  Uncompressed :: bool

text \<open>
  What the collaborators answer during one call of \<open>RoundTrip\<close>:
  \<^item> \<open>authority\<close>: the value of \<open>authorityAddr("https", hostnameFromRequest(req))\<close>;
  \<^item> \<open>dialAnswer\<close>: the dialer returns an error or a connection;
  \<^item> \<open>handshakeAnswer\<close>: which case of the \<open>select\<close> fires, \<open>None\<close> for
    \<open>HandshakeComplete().Done()\<close> and \<open>Some e\<close> for the request context, whose \<open>Err()\<close> is \<open>e\<close>;
  \<^item> \<open>openStreamAnswer\<close>, \<open>writeRequestAnswer\<close>, \<open>readFullAnswer\<close>: the error returned, if any;
  \<^item> \<open>parseNextFrameAnswer\<close>, \<open>decodeFullAnswer\<close>: an error or the value returned;
  \<^item> \<open>tlsState\<close>: the TLS connection state; \<open>StatusText\<close>: \<open>http.StatusText\<close>.
\<close>

record exchange =
  authority :: string
  dialAnswer :: "error + nat"
  handshakeAnswer :: "error option"
  openStreamAnswer :: "error option"
  writeRequestAnswer :: "error option"
  parseNextFrameAnswer :: "error + frame"
  readFullAnswer :: "error option"
  decodeFullAnswer :: "error + headerField list"
  tlsState :: nat
  StatusText :: "int \<Rightarrow> string"

text \<open>
  What is read from one accepted unidirectional stream: the stream type (\<open>quicvarint.Read\<close>),
  the answer of \<open>parseNextFrame\<close>, and \<open>ConnectionState().SupportsDatagrams\<close>.
\<close>

record uniStream =
  streamTypeAnswer :: "error + 64 word"
  uniParseAnswer :: "error + frame"
  supportsDatagrams :: bool

subsection \<open>handleUnidirectionalStreams: the goroutine of one accepted stream\<close>

definition handleUnidirectionalStream :: "package \<Rightarrow> client \<Rightarrow> uniStream \<Rightarrow> event list" where
  "handleUnidirectionalStream pk c s =
     (case streamTypeAnswer s of
        Inl e \<Rightarrow> [ReadStreamType]
      | Inr streamType \<Rightarrow>
          if streamType = streamTypeControlStream pk then
            (let ufh = UniStreamHijacker (opts c);
                 t = [ReadStreamType, ParseNextFrame (ufh \<noteq> None)]
             in case uniParseAnswer s of
                  Inl e \<Rightarrow>
                    if e = errHijacked then t
                    else t @ [CloseWithError (errorFrameError pk) '''']
                | Inr (settingsFrame Datagram Other) \<Rightarrow>
                    if \<not> Datagram then t
                    else if EnableDatagram (opts c) then
                      t @ [ConnectionState] @
                        (if \<not> supportsDatagrams s
                         then [CloseWithError (errorSettingsError pk) ''missing QUIC Datagram support'']
                         else [])
                    else t
                | Inr f \<Rightarrow> t @ [CloseWithError (errorMissingSettings pk) ''''])
          else if streamType = streamTypeQPACKEncoderStream pk
                  \<or> streamType = streamTypeQPACKDecoderStream pk then [ReadStreamType]
          else if streamType = streamTypePushStream pk then
            [ReadStreamType, CloseWithError (errorIDError pk) '''']
          else [ReadStreamType, CancelRead (errorStreamCreationError pk)])"

subsection \<open>doRequest\<close>

text \<open>Lines 348 to 360: the loop over the decoded header fields.\<close>

fun responseHeaders ::
  "package \<Rightarrow> (int \<Rightarrow> string) \<Rightarrow> response \<Rightarrow> headerField list \<Rightarrow> requestError + response" where
  "responseHeaders pk st res [] = Inr res"
| "responseHeaders pk st res (hf # hfs) =
     (if Name hf = '':status'' then
        (case Atoi (Value hf) of
           None \<Rightarrow>
             Inl (newStreamError (errorGeneralProtocolError pk)
                    (Err ''malformed non-numeric status pseudo header''))
         | Some status \<Rightarrow>
             responseHeaders pk st
               (res\<lparr>StatusCode := status, Status := Value hf @ '' '' @ st status\<rparr>) hfs)
      else responseHeaders pk st (res\<lparr>Header := header_Add (Header res) (Name hf) (Value hf)\<rparr>) hfs)"

text \<open>Lines 365 to 377: when to set the content length.\<close>

definition setContentLength :: "request \<Rightarrow> response \<Rightarrow> response" where
  "setContentLength req res =
     (let hasTransferEncoding = (Header res ''Transfer-Encoding'' \<noteq> None);
          isInformational = (StatusCode res \<ge> 100 \<and> StatusCode res < 200);
          isNoContent = (StatusCode res = 204);
          isSuccessfulConnect =
            (Method req = ''CONNECT'' \<and> StatusCode res \<ge> 200 \<and> StatusCode res < 300)
      in if \<not> hasTransferEncoding \<and> \<not> isInformational \<and> \<not> isNoContent \<and> \<not> isSuccessfulConnect
         then (let res1 = res\<lparr>ContentLength := - 1\<rparr>
               in case Header res ''Content-Length'' of
                    None \<Rightarrow> res1
                  | Some clens \<Rightarrow>
                      if length clens = 1 then
                        (case ParseInt (clens ! 0) 64 of
                           None \<Rightarrow> res1
                         | Some clen64 \<Rightarrow> res1\<lparr>ContentLength := clen64\<rparr>)
                      else res1)
         else res)"

text \<open>Lines 379 to 387: the body, decompressed when gzip was asked for and is announced.\<close>

definition setBody :: "bool \<Rightarrow> response \<Rightarrow> response" where
  "setBody gz res =
     (if gz \<and> header_Get (Header res) ''Content-Encoding'' = ''gzip'' then
        res\<lparr>Header := header_Del (header_Del (Header res) ''Content-Encoding'') ''Content-Length'',
            ContentLength := - 1,
            Body := Some (gzipReader responseBody),
            Uncompressed := True\<rparr>
      else res\<lparr>Body := Some responseBody\<rparr>)"

text \<open>Lines 312 to 315.\<close>

definition requestGzip :: "client \<Rightarrow> request \<Rightarrow> bool" where
  "requestGzip c req =
     (\<not> DisableCompression (opts c) \<and> Method req \<noteq> ''HEAD''
      \<and> header_Get (ReqHeader req) ''Accept-Encoding'' = ''''
      \<and> header_Get (ReqHeader req) ''Range'' = '''')"

definition tooLarge :: "64 word \<Rightarrow> 64 word \<Rightarrow> error" where
  "tooLarge len mx =
     Err (''HEADERS frame too large: '' @ showNat (unat len) @ '' bytes (max: ''
          @ showNat (unat mx) @ '')'')"

definition doRequest ::
  "package \<Rightarrow> client \<Rightarrow> request \<Rightarrow> exchange \<Rightarrow> response option \<times> requestError \<times> event list" where
  "doRequest pk c req x =
     (let t1 = [WriteRequest (Method req) (requestGzip c req)]
      in case writeRequestAnswer x of
           Some e \<Rightarrow> (None, newStreamError (errorInternalError pk) e, t1)
         | None \<Rightarrow>
             (let t2 = t1 @ [ParseNextFrame False]
              in case parseNextFrameAnswer x of
                   Inl e \<Rightarrow> (None, newStreamError (errorFrameError pk) e, t2)
                 | Inr (headersFrame len) \<Rightarrow>
                     if len > maxHeaderBytes c then
                       (None, newStreamError (errorFrameError pk) (tooLarge len (maxHeaderBytes c)), t2)
                     else
                       (let t3 = t2 @ [MakeHeaderBlock (unat len), ReadFull (unat len)]
                        in case readFullAnswer x of
                             Some e \<Rightarrow> (None, newStreamError (errorRequestIncomplete pk) e, t3)
                           | None \<Rightarrow>
                               (let t4 = t3 @ [DecodeFull]
                                in case decodeFullAnswer x of
                                     Inl e \<Rightarrow>
                                       (None, newConnError (errorGeneralProtocolError pk) e, t4)
                                   | Inr hfs \<Rightarrow>
                                       (let t5 = t4 @ [ConnectionState];
                                            res = \<lparr>Proto = ''HTTP/3'', ProtoMajor = 3,
                                                   Header = Map.empty, TLS = tlsState x,
                                                   StatusCode = 0, Status = '''',
                                                   ContentLength = 0, Body = None,
                                                   Uncompressed = False\<rparr>
                                        in case responseHeaders pk (StatusText x) res hfs of
                                             Inl re \<Rightarrow> (None, re, t5)
                                           | Inr res1 \<Rightarrow>
                                               (Some (setBody (requestGzip c req)
                                                        (setContentLength req res1)),
                                                noRequestError, t5))))
                 | Inr f \<Rightarrow>
                     (None,
                      newConnError (errorFrameUnexpected pk)
                        (Err ''expected first frame to be a HEADERS frame''), t2)))"

subsection \<open>dial and RoundTrip\<close>

text \<open>
  \<open>dial\<close> stores the connection and starts the goroutines; when the dialer fails,
  \<open>c.conn\<close> is the nil connection it returns.
\<close>

definition dial :: "client \<Rightarrow> exchange \<Rightarrow> client \<times> error option \<times> event list" where
  "dial c x =
     (case dialAnswer x of
        Inl e \<Rightarrow> (c\<lparr>conn := None\<rparr>, Some e, [Dial])
      | Inr q \<Rightarrow>
          (c\<lparr>conn := Some q\<rparr>, None,
           [Dial, GoSetupConn]
           @ (if StreamHijacker (opts c) \<noteq> None then [GoHandleBidirectionalStreams] else [])
           @ [GoHandleUnidirectionalStreams]))"

text \<open>Lines 252 to 254: \<open>c.dialOnce.Do\<close> runs \<open>dial\<close> on the first call only.\<close>

definition dialOnceDo :: "client \<Rightarrow> exchange \<Rightarrow> client \<times> event list" where
  "dialOnceDo c x =
     (if dialOnce c then (c, [])
      else (case dial c x of
              (c', e, t) \<Rightarrow> (c'\<lparr>dialOnce := True, handshakeErr := e\<rparr>, t)))"

text \<open>Lines 291 to 303: what \<open>RoundTrip\<close> does with the \<open>requestError\<close> of \<open>doRequest\<close>.\<close>

definition afterRequest :: "package \<Rightarrow> requestError \<Rightarrow> event list" where
  "afterRequest pk rerr =
     (if err rerr \<noteq> None then
        [CloseReqDone]
        @ (if streamErr rerr \<noteq> 0 then [CancelWrite (streamErr rerr)] else [])
        @ (if connErr rerr \<noteq> 0 then
             [CloseWithError (connErr rerr)
                (case err rerr of None \<Rightarrow> '''' | Some e \<Rightarrow> ErrorText pk e)]
           else [])
      else [])"

definition wrongClient :: "client \<Rightarrow> request \<Rightarrow> error" where
  "wrongClient c req =
     Err (''http3 client BUG: RoundTrip called for the wrong client (expected ''
          @ hostname c @ '', got '' @ Host req @ '')'')"

definition RoundTrip ::
  "package \<Rightarrow> client \<Rightarrow> request \<Rightarrow> exchange
     \<Rightarrow> client \<times> response option \<times> error option \<times> event list" where
  "RoundTrip pk c req x =
     (if authority x \<noteq> hostname c then (c, None, Some (wrongClient c req), [])
      else
        (case dialOnceDo c x of
           (c1, t0) \<Rightarrow>
          (case handshakeErr c1 of
              Some e \<Rightarrow> (c1, None, Some e, t0)
            | None \<Rightarrow>
                (let zeroRTT = (Method req = MethodGet0RTT);
                     req1 = (if zeroRTT then req\<lparr>Method := ''GET''\<rparr> else req);
                     t1 = t0 @ (if zeroRTT then [] else [WaitHandshakeOrContext])
                 in if \<not> zeroRTT \<and> handshakeAnswer x \<noteq> None then
                      (c1, None, handshakeAnswer x, t1)
                    else
                      (let t2 = t1 @ [OpenStreamSync]
                       in case openStreamAnswer x of
                            Some e \<Rightarrow> (c1, None, Some e, t2)
                          | None \<Rightarrow>
                              (case doRequest pk c1 req1 x of
                                 (rsp, rerr, td) \<Rightarrow>
                                   (c1, rsp, err rerr,
                                    t2 @ [GoCancellationWatcher] @ td @ afterRequest pk rerr)))))))"

subsection \<open>Notions the properties are stated with\<close>

text \<open>
  A decimal numeral: an optional sign, then one or more digits. A status value that is
  not one is non-numeric.
\<close>

definition decimalNumeral :: "string \<Rightarrow> bool" where
  "decimalNumeral s =
     (case s of
        [] \<Rightarrow> False
      | c # cs \<Rightarrow>
          if c = CHR ''+'' \<or> c = CHR ''-'' then cs \<noteq> [] \<and> list_all isDigit cs
          else list_all isDigit s)"

text \<open>
  client.go hands a stream to the \<open>UniStreamHijacker\<close> in one way only: as the handler
  for unknown frames that \<open>parseNextFrame\<close> is called with.
\<close>

definition delegatedToHijacker :: "event list \<Rightarrow> bool" where
  "delegatedToHijacker t = (ParseNextFrame True \<in> set t)"

text \<open>
  The values of the decoded header fields that go into the header map under the key
  \<open>k\<close>, in the order of the header block. The \<open>:status\<close> field is not a header.
\<close>

definition fieldValues :: "headerField list \<Rightarrow> string \<Rightarrow> string list" where
  "fieldValues hfs k =
     map Value (filter (\<lambda>hf. Name hf \<noteq> '':status'' \<and> CanonicalMIMEHeaderKey (Name hf) = k) hfs)"

text \<open>
  The first value stored under a header key, or the empty string when the key is absent
  or has no value: what \<open>Header.Get\<close> returns for a canonical key.
\<close>

definition firstValue :: "string list option \<Rightarrow> string" where
  "firstValue vs = (case vs of None \<Rightarrow> '''' | Some [] \<Rightarrow> '''' | Some (v # rest) \<Rightarrow> v)"

subsection \<open>Concrete inputs for the examples\<close>

text \<open>
  The values RFC 9114 assigns to the error codes and stream types, a client with the zero
  options before and after a successful dial, a plain GET request, and a server that
  answers with an empty HEADERS frame.
\<close>

definition rfc9114 :: package where
  "rfc9114 =
     \<lparr>errorNoError = 0x100, errorGeneralProtocolError = 0x101, errorInternalError = 0x102,
      errorStreamCreationError = 0x103, errorFrameUnexpected = 0x105, errorFrameError = 0x106,
      errorIDError = 0x108, errorSettingsError = 0x109, errorMissingSettings = 0x10a,
      errorRequestCanceled = 0x10c, errorRequestIncomplete = 0x10d,
      streamTypeControlStream = 0, streamTypePushStream = 1,
      streamTypeQPACKEncoderStream = 2, streamTypeQPACKDecoderStream = 3,
      errHijackedText = ''hijacked''\<rparr>"

definition zeroOpts :: roundTripperOpts where
  "zeroOpts =
     \<lparr>DisableCompression = False, EnableDatagram = False, MaxHeaderBytes = 0,
      AdditionalSettings = Map.empty, StreamHijacker = None, UniStreamHijacker = None\<rparr>"

definition freshClient :: client where
  "freshClient =
     \<lparr>opts = zeroOpts, dialOnce = False, handshakeErr = None,
      hostname = ''example.com:443'', conn = None\<rparr>"

definition dialedClient :: client where
  "dialedClient = freshClient\<lparr>dialOnce := True, conn := Some 1\<rparr>"

definition getRequest :: request where
  "getRequest = \<lparr>Method = ''GET'', Host = ''example.com'', ReqHeader = Map.empty\<rparr>"

definition answers :: exchange where
  "answers =
     \<lparr>authority = ''example.com:443'', dialAnswer = Inr 1, handshakeAnswer = None,
      openStreamAnswer = None, writeRequestAnswer = None,
      parseNextFrameAnswer = Inr (headersFrame 0), readFullAnswer = None,
      decodeFullAnswer = Inr [], tlsState = 0, StatusText = (\<lambda>s. '''')\<rparr>"

definition hijackingClient :: client where
  "hijackingClient =
     dialedClient\<lparr>opts := zeroOpts\<lparr>UniStreamHijacker := Some (\<lambda>ft. (True, None))\<rparr>\<rparr>"

definition datagramClient :: client where
  "datagramClient = dialedClient\<lparr>opts := zeroOpts\<lparr>EnableDatagram := True\<rparr>\<rparr>"

definition streamOfType :: "64 word \<Rightarrow> uniStream" where
  "streamOfType t =
     \<lparr>streamTypeAnswer = Inr t, uniParseAnswer = Inr (settingsFrame True Map.empty),
      supportsDatagrams = False\<rparr>"

text \<open>
  A request that sets the Accept-Encoding header to the empty string, and header fields
  as the QPACK decoder returns them, with lower-case names.
\<close>

definition emptyAcceptEncoding :: request where
  "emptyAcceptEncoding = getRequest\<lparr>ReqHeader := [''Accept-Encoding'' \<mapsto> ['''']]\<rparr>"

definition ok200 :: headerField where
  "ok200 = \<lparr>Name = '':status'', Value = ''200''\<rparr>"

definition contentLength :: "string \<Rightarrow> headerField" where
  "contentLength v = \<lparr>Name = ''content-length'', Value = v\<rparr>"

definition gzipEncoding :: headerField where
  "gzipEncoding = \<lparr>Name = ''content-encoding'', Value = ''gzip''\<rparr>"

section \<open>Properties\<close>

subsection \<open>Close\<close>

text \<open>
  C9. On a client that was never dialed (\<open>conn\<close> is nil) \<open>Close\<close> returns no error and
  calls nothing on the transport, and so does a second \<open>Close\<close> after it. On a dialed
  client \<open>Close\<close> calls \<open>CloseWithError\<close> with the "no error" code and an empty reason and
  returns what the transport returns; it leaves the client unchanged, so a second call
  does the same as the first.
\<close>

theorem Close_idempotent:
  "(conn c = None \<longrightarrow>
      Close pk c a = (None, [], c)
      \<and> (case Close pk c a of (e, t, c') \<Rightarrow> Close pk c' a') = (None, [], c))
   \<and> (conn c = Some q \<longrightarrow>
      Close pk c a = (a, [CloseWithError (errorNoError pk) ''''], c)
      \<and> (case Close pk c a of (e, t, c') \<Rightarrow> Close pk c' a')
          = (a', [CloseWithError (errorNoError pk) ''''], c))"
  by (simp add: Close_def)

theorem Close_idempotent_witness:
  "conn freshClient = None
   \<and> Close rfc9114 freshClient (Some (Err ''closed'')) = (None, [], freshClient)
   \<and> conn dialedClient = Some 1
   \<and> Close rfc9114 dialedClient None = (None, [CloseWithError 0x100 ''''], dialedClient)"
  using Close_idempotent [of freshClient rfc9114 "Some (Err ''closed'')" None 1]
    Close_idempotent [of dialedClient rfc9114 None None 1]
  by (simp add: freshClient_def dialedClient_def rfc9114_def)

subsection \<open>The header byte budget\<close>

lemma maxHeaderBytes_value:
  "maxHeaderBytes c =
     (if sint (MaxHeaderBytes (opts c)) \<le> 0 then 10485760 else MaxHeaderBytes (opts c))"
  by (simp add: maxHeaderBytes_def defaultMaxResponseHeaderBytes_def)

lemma doRequest_buffers:
  "MakeHeaderBlock n \<in> set (snd (snd (doRequest pk c req x))) \<Longrightarrow> n \<le> unat (maxHeaderBytes c)"
  by (auto simp: doRequest_def Let_def word_le_nat_alt not_less
           split: option.splits sum.splits frame.splits if_splits)

text \<open>
  C4. When the request was written and the frame read is a HEADERS frame whose length
  exceeds \<open>maxHeaderBytes\<close>, \<open>doRequest\<close> fails with the stream error "frame error" and
  its trace ends at the frame read: no header block was allocated. Whatever the answers
  are, a header block that is allocated has at most \<open>maxHeaderBytes\<close> bytes, and
  \<open>maxHeaderBytes\<close> is the configured value, or 10485760 when that is not positive.
\<close>

theorem headers_too_large:
  "(writeRequestAnswer x = None \<and> parseNextFrameAnswer x = Inr (headersFrame len)
      \<and> len > maxHeaderBytes c \<longrightarrow>
      doRequest pk c req x =
        (None, newStreamError (errorFrameError pk) (tooLarge len (maxHeaderBytes c)),
         [WriteRequest (Method req) (requestGzip c req), ParseNextFrame False]))
   \<and> (\<forall>n. MakeHeaderBlock n \<in> set (snd (snd (doRequest pk c req x)))
          \<longrightarrow> n \<le> unat (maxHeaderBytes c))
   \<and> maxHeaderBytes c =
       (if sint (MaxHeaderBytes (opts c)) \<le> 0 then 10485760 else MaxHeaderBytes (opts c))"
  using doRequest_buffers [of _ pk c req x]
  by (simp add: doRequest_def maxHeaderBytes_value)

theorem headers_too_large_witness:
  "maxHeaderBytes dialedClient = 10485760
   \<and> (10485761 :: 64 word) > maxHeaderBytes dialedClient
   \<and> doRequest rfc9114 dialedClient getRequest
        (answers\<lparr>parseNextFrameAnswer := Inr (headersFrame 10485761)\<rparr>) =
       (None,
        \<lparr>err = Some (tooLarge 10485761 10485760), streamErr = 0x106, connErr = 0\<rparr>,
        [WriteRequest ''GET'' True, ParseNextFrame False])
   \<and> doRequest rfc9114 (dialedClient\<lparr>opts := zeroOpts\<lparr>MaxHeaderBytes := 16\<rparr>\<rparr>) getRequest
        (answers\<lparr>parseNextFrameAnswer := Inr (headersFrame 16)\<rparr>) =
       (Some \<lparr>Proto = ''HTTP/3'', ProtoMajor = 3, Header = Map.empty, TLS = 0, StatusCode = 0,
              Status = '''', ContentLength = - 1, Body = Some responseBody,
              Uncompressed = False\<rparr>,
        noRequestError,
        [WriteRequest ''GET'' True, ParseNextFrame False, MakeHeaderBlock 16, ReadFull 16,
         DecodeFull, ConnectionState])"
  using headers_too_large
          [of "answers\<lparr>parseNextFrameAnswer := Inr (headersFrame 10485761)\<rparr>"
              10485761 dialedClient rfc9114 getRequest]
  by (simp add: doRequest_def maxHeaderBytes_value dialedClient_def freshClient_def
        zeroOpts_def answers_def getRequest_def rfc9114_def newStreamError_def
        requestGzip_def header_Get_def setBody_def setContentLength_def)

subsection \<open>What RoundTrip does after doRequest\<close>

lemma responseHeaders_error:
  "responseHeaders pk st res hfs = Inl re \<Longrightarrow>
     re = newStreamError (errorGeneralProtocolError pk)
            (Err ''malformed non-numeric status pseudo header'')"
  by (induction hfs arbitrary: res) (auto split: if_splits option.splits)

lemma doRequest_one_scope:
  "doRequest pk c req x = (rsp, rerr, td) \<Longrightarrow> streamErr rerr = 0 \<or> connErr rerr = 0"
  by (auto simp: doRequest_def Let_def newStreamError_def newConnError_def noRequestError_def
           split: option.splits sum.splits frame.splits if_splits
           dest!: responseHeaders_error)

lemma doRequest_quiet:
  "doRequest pk c req x = (rsp, rerr, td) \<Longrightarrow>
     CloseReqDone \<notin> set td \<and> (\<forall>code. CancelWrite code \<notin> set td \<and> CancelRead code \<notin> set td)
     \<and> (\<forall>code reason. CloseWithError code reason \<notin> set td)"
  by (auto simp: doRequest_def Let_def
           split: option.splits sum.splits frame.splits if_splits)

lemma RoundTrip_exchange:
  assumes "authority x = hostname c" and "dialOnceDo c x = (c1, t0)"
    and "handshakeErr c1 = None"
    and "Method req = MethodGet0RTT \<or> handshakeAnswer x = None"
    and "openStreamAnswer x = None"
    and "doRequest pk c1 (if Method req = MethodGet0RTT then req\<lparr>Method := ''GET''\<rparr> else req) x
           = (rsp, rerr, td)"
  shows "RoundTrip pk c req x =
           (c1, rsp, err rerr,
            t0 @ (if Method req = MethodGet0RTT then [] else [WaitHandshakeOrContext])
            @ [OpenStreamSync, GoCancellationWatcher] @ td @ afterRequest pk rerr)"
  using assms by (auto simp: RoundTrip_def Let_def)

text \<open>
  C1. Let \<open>RoundTrip\<close> reach \<open>doRequest\<close> (the authority matches, the dial succeeded,
  the handshake wait and the stream opening passed) and let \<open>doRequest\<close> return an error
  \<open>e\<close>. Then \<open>RoundTrip\<close> returns \<open>e\<close>, and after the events of \<open>doRequest\<close>, none of
  which closes or cancels anything, it closes the done channel of the cancellation
  watcher first, then cancels the write side of the stream with the stream error code if
  that code is nonzero, then closes the connection with the connection error code and
  the text of \<open>e\<close> as the reason if that code is nonzero. The two codes are never both
  nonzero, and the read side of the stream is not canceled.
\<close>

theorem RoundTrip_cleanup:
  assumes "authority x = hostname c" and "dialOnceDo c x = (c1, t0)"
    and "handshakeErr c1 = None"
    and "Method req = MethodGet0RTT \<or> handshakeAnswer x = None"
    and "openStreamAnswer x = None"
    and "doRequest pk c1 (if Method req = MethodGet0RTT then req\<lparr>Method := ''GET''\<rparr> else req) x
           = (rsp, rerr, td)"
    and "err rerr = Some e"
  shows "RoundTrip pk c req x =
           (c1, rsp, Some e,
            t0 @ (if Method req = MethodGet0RTT then [] else [WaitHandshakeOrContext])
            @ [OpenStreamSync, GoCancellationWatcher] @ td
            @ [CloseReqDone]
            @ (if streamErr rerr \<noteq> 0 then [CancelWrite (streamErr rerr)] else [])
            @ (if connErr rerr \<noteq> 0 then [CloseWithError (connErr rerr) (ErrorText pk e)] else []))
         \<and> (streamErr rerr = 0 \<or> connErr rerr = 0)
         \<and> CloseReqDone \<notin> set td
         \<and> (\<forall>code. CancelWrite code \<notin> set td \<and> CancelRead code \<notin> set td)
         \<and> (\<forall>code reason. CloseWithError code reason \<notin> set td)"
proof -
  have "afterRequest pk rerr =
          [CloseReqDone]
          @ (if streamErr rerr \<noteq> 0 then [CancelWrite (streamErr rerr)] else [])
          @ (if connErr rerr \<noteq> 0 then [CloseWithError (connErr rerr) (ErrorText pk e)] else [])"
    using assms(7) by (simp add: afterRequest_def)
  with RoundTrip_exchange [OF assms(1-6)] assms(7)
  have "RoundTrip pk c req x =
           (c1, rsp, Some e,
            t0 @ (if Method req = MethodGet0RTT then [] else [WaitHandshakeOrContext])
            @ [OpenStreamSync, GoCancellationWatcher] @ td
            @ [CloseReqDone]
            @ (if streamErr rerr \<noteq> 0 then [CancelWrite (streamErr rerr)] else [])
            @ (if connErr rerr \<noteq> 0 then [CloseWithError (connErr rerr) (ErrorText pk e)] else []))"
    by simp
  with doRequest_one_scope [OF assms(6)] doRequest_quiet [OF assms(6)]
  show ?thesis by blast
qed

theorem RoundTrip_cleanup_witness:
  "RoundTrip rfc9114 freshClient getRequest (answers\<lparr>decodeFullAnswer := Inl (Err ''bad block'')\<rparr>) =
     (freshClient\<lparr>conn := Some 1, dialOnce := True, handshakeErr := None\<rparr>, None,
      Some (Err ''bad block''),
      [Dial, GoSetupConn, GoHandleUnidirectionalStreams, WaitHandshakeOrContext, OpenStreamSync,
       GoCancellationWatcher, WriteRequest ''GET'' True, ParseNextFrame False, MakeHeaderBlock 0,
       ReadFull 0, DecodeFull, CloseReqDone, CloseWithError 0x101 ''bad block''])
   \<and> RoundTrip rfc9114 dialedClient getRequest (answers\<lparr>readFullAnswer := Some (Err ''EOF'')\<rparr>) =
     (dialedClient, None, Some (Err ''EOF''),
      [WaitHandshakeOrContext, OpenStreamSync,
       GoCancellationWatcher, WriteRequest ''GET'' True, ParseNextFrame False, MakeHeaderBlock 0,
       ReadFull 0, CloseReqDone, CancelWrite 0x10d])"
  using RoundTrip_cleanup
     [of "answers\<lparr>decodeFullAnswer := Inl (Err ''bad block'')\<rparr>" freshClient
         "freshClient\<lparr>conn := Some 1, dialOnce := True, handshakeErr := None\<rparr>"
         "[Dial, GoSetupConn, GoHandleUnidirectionalStreams]" getRequest rfc9114 None
         "newConnError 0x101 (Err ''bad block'')"
         "[WriteRequest ''GET'' True, ParseNextFrame False, MakeHeaderBlock 0, ReadFull 0, DecodeFull]"
         "Err ''bad block''"]
    RoundTrip_cleanup
     [of "answers\<lparr>readFullAnswer := Some (Err ''EOF'')\<rparr>" dialedClient
         dialedClient "[]" getRequest rfc9114 None
         "newStreamError 0x10d (Err ''EOF'')"
         "[WriteRequest ''GET'' True, ParseNextFrame False, MakeHeaderBlock 0, ReadFull 0]"
         "Err ''EOF''"]
  by (simp add: doRequest_def maxHeaderBytes_value dialedClient_def freshClient_def
        zeroOpts_def answers_def getRequest_def rfc9114_def newStreamError_def newConnError_def
        requestGzip_def header_Get_def dialOnceDo_def dial_def MethodGet0RTT_def)

subsection \<open>The first frame of the response\<close>

text \<open>
  C3. Let \<open>RoundTrip\<close> reach \<open>doRequest\<close> and the request be written. If the frame
  read is not a HEADERS frame, \<open>doRequest\<close> fails with the connection error "frame
  unexpected", and \<open>RoundTrip\<close> closes the connection with that code (the code being
  nonzero) and the reason "expected first frame to be a HEADERS frame". If no frame could
  be parsed, \<open>doRequest\<close> fails with the stream error "frame error" and the parser's
  error, and \<open>RoundTrip\<close> cancels the write side of the stream and leaves the
  connection open.
\<close>

theorem first_frame_must_be_headers:
  fixes pk c req x c1 t0
  defines "req1 \<equiv> (if Method req = MethodGet0RTT then req\<lparr>Method := ''GET''\<rparr> else req)"
  defines "pre \<equiv> t0 @ (if Method req = MethodGet0RTT then [] else [WaitHandshakeOrContext])
                 @ [OpenStreamSync, GoCancellationWatcher,
                    WriteRequest (Method req1) (requestGzip c1 req1), ParseNextFrame False]"
  assumes "authority x = hostname c" and "dialOnceDo c x = (c1, t0)"
    and "handshakeErr c1 = None"
    and "Method req = MethodGet0RTT \<or> handshakeAnswer x = None"
    and "openStreamAnswer x = None"
    and "writeRequestAnswer x = None"
  shows "(\<forall>f. parseNextFrameAnswer x = Inr f \<and> (\<forall>len. f \<noteq> headersFrame len) \<and>
              errorFrameUnexpected pk \<noteq> 0 \<longrightarrow>
            fst (snd (doRequest pk c1 req1 x)) =
              newConnError (errorFrameUnexpected pk)
                (Err ''expected first frame to be a HEADERS frame'')
            \<and> RoundTrip pk c req x =
                (c1, None, Some (Err ''expected first frame to be a HEADERS frame''),
                 pre @ [CloseReqDone,
                        CloseWithError (errorFrameUnexpected pk)
                          ''expected first frame to be a HEADERS frame'']))
       \<and> (\<forall>e. parseNextFrameAnswer x = Inl e \<longrightarrow>
            fst (snd (doRequest pk c1 req1 x)) = newStreamError (errorFrameError pk) e
            \<and> RoundTrip pk c req x =
                (c1, None, Some e,
                 pre @ [CloseReqDone]
                 @ (if errorFrameError pk \<noteq> 0 then [CancelWrite (errorFrameError pk)] else [])))"
proof (intro conjI allI impI)
  fix f
  assume a: "parseNextFrameAnswer x = Inr f \<and> (\<forall>len. f \<noteq> headersFrame len) \<and>
              errorFrameUnexpected pk \<noteq> 0"
  then have d: "doRequest pk c1 req1 x =
      (None, newConnError (errorFrameUnexpected pk)
                (Err ''expected first frame to be a HEADERS frame''),
       [WriteRequest (Method req1) (requestGzip c1 req1), ParseNextFrame False])"
    using assms(8) by (cases f) (auto simp: doRequest_def)
  then show "fst (snd (doRequest pk c1 req1 x)) =
              newConnError (errorFrameUnexpected pk)
                (Err ''expected first frame to be a HEADERS frame'')"
    by simp
  from d RoundTrip_exchange [OF assms(3-7), of pk] a
  show "RoundTrip pk c req x =
                (c1, None, Some (Err ''expected first frame to be a HEADERS frame''),
                 pre @ [CloseReqDone,
                        CloseWithError (errorFrameUnexpected pk)
                          ''expected first frame to be a HEADERS frame''])"
    by (simp add: req1_def pre_def afterRequest_def newConnError_def)
next
  fix e
  assume a: "parseNextFrameAnswer x = Inl e"
  then have d: "doRequest pk c1 req1 x =
      (None, newStreamError (errorFrameError pk) e,
       [WriteRequest (Method req1) (requestGzip c1 req1), ParseNextFrame False])"
    using assms(8) by (auto simp: doRequest_def)
  then show "fst (snd (doRequest pk c1 req1 x)) = newStreamError (errorFrameError pk) e"
    by simp
  from d RoundTrip_exchange [OF assms(3-7), of pk]
  show "RoundTrip pk c req x =
                (c1, None, Some e,
                 pre @ [CloseReqDone]
                 @ (if errorFrameError pk \<noteq> 0 then [CancelWrite (errorFrameError pk)] else []))"
    by (simp add: req1_def pre_def afterRequest_def newStreamError_def)
qed

theorem first_frame_must_be_headers_witness:
  "RoundTrip rfc9114 dialedClient getRequest (answers\<lparr>parseNextFrameAnswer := Inr (dataFrame 5)\<rparr>) =
     (dialedClient, None, Some (Err ''expected first frame to be a HEADERS frame''),
      [WaitHandshakeOrContext, OpenStreamSync, GoCancellationWatcher, WriteRequest ''GET'' True,
       ParseNextFrame False, CloseReqDone,
       CloseWithError 0x105 ''expected first frame to be a HEADERS frame''])
   \<and> RoundTrip rfc9114 dialedClient getRequest
       (answers\<lparr>parseNextFrameAnswer := Inl (Err ''unexpected EOF'')\<rparr>) =
     (dialedClient, None, Some (Err ''unexpected EOF''),
      [WaitHandshakeOrContext, OpenStreamSync, GoCancellationWatcher, WriteRequest ''GET'' True,
       ParseNextFrame False, CloseReqDone, CancelWrite 0x106])"
  using first_frame_must_be_headers
     [of "answers\<lparr>parseNextFrameAnswer := Inr (dataFrame 5)\<rparr>" dialedClient dialedClient "[]"
         getRequest rfc9114]
    first_frame_must_be_headers
     [of "answers\<lparr>parseNextFrameAnswer := Inl (Err ''unexpected EOF'')\<rparr>" dialedClient
         dialedClient "[]" getRequest rfc9114]
  by (simp add: dialedClient_def freshClient_def zeroOpts_def answers_def getRequest_def
        rfc9114_def requestGzip_def header_Get_def dialOnceDo_def MethodGet0RTT_def)

subsection \<open>Malformed header blocks and status values\<close>

lemma Atoi_not_numeral: "\<not> decimalNumeral s \<Longrightarrow> Atoi s = None"
  by (auto simp: decimalNumeral_def Atoi_def ParseInt_def Let_def split: list.splits if_splits)

lemma responseHeaders_malformed:
  "\<exists>hf\<in>set hfs. Name hf = '':status'' \<and> Atoi (Value hf) = None \<Longrightarrow>
     responseHeaders pk st res hfs =
       Inl (newStreamError (errorGeneralProtocolError pk)
              (Err ''malformed non-numeric status pseudo header''))"
  by (induction hfs arbitrary: res) (auto split: option.splits)

text \<open>
  C10. Let \<open>RoundTrip\<close> reach \<open>doRequest\<close>, the request be written, a HEADERS frame
  within the byte budget arrive and its block be read. If \<open>DecodeFull\<close> fails,
  \<open>doRequest\<close> fails with the connection error "general protocol error" and
  \<open>RoundTrip\<close> closes the connection with that code (the code being nonzero) and the
  decoder's error text. If the block decodes and holds a \<open>:status\<close> field whose value is
  not a decimal numeral, \<open>doRequest\<close> fails with the stream error "general protocol
  error", and \<open>RoundTrip\<close> cancels the write side of the stream and leaves the
  connection open.
\<close>

theorem malformed_header_block:
  fixes pk c req x c1 t0 len
  defines "req1 \<equiv> (if Method req = MethodGet0RTT then req\<lparr>Method := ''GET''\<rparr> else req)"
  defines "pre \<equiv> t0 @ (if Method req = MethodGet0RTT then [] else [WaitHandshakeOrContext])
                 @ [OpenStreamSync, GoCancellationWatcher,
                    WriteRequest (Method req1) (requestGzip c1 req1), ParseNextFrame False,
                    MakeHeaderBlock (unat len), ReadFull (unat len), DecodeFull]"
  assumes "authority x = hostname c" and "dialOnceDo c x = (c1, t0)"
    and "handshakeErr c1 = None"
    and "Method req = MethodGet0RTT \<or> handshakeAnswer x = None"
    and "openStreamAnswer x = None"
    and "writeRequestAnswer x = None"
    and "parseNextFrameAnswer x = Inr (headersFrame len)"
    and "len \<le> maxHeaderBytes c1"
    and "readFullAnswer x = None"
  shows "(\<forall>e. decodeFullAnswer x = Inl e \<and> errorGeneralProtocolError pk \<noteq> 0 \<longrightarrow>
            fst (snd (doRequest pk c1 req1 x)) = newConnError (errorGeneralProtocolError pk) e
            \<and> RoundTrip pk c req x =
                (c1, None, Some e,
                 pre @ [CloseReqDone,
                        CloseWithError (errorGeneralProtocolError pk) (ErrorText pk e)]))
       \<and> (\<forall>hfs. decodeFullAnswer x = Inr hfs
                \<and> (\<exists>hf\<in>set hfs. Name hf = '':status'' \<and> \<not> decimalNumeral (Value hf)) \<longrightarrow>
            fst (snd (doRequest pk c1 req1 x)) =
              newStreamError (errorGeneralProtocolError pk)
                (Err ''malformed non-numeric status pseudo header'')
            \<and> RoundTrip pk c req x =
                (c1, None, Some (Err ''malformed non-numeric status pseudo header''),
                 pre @ [ConnectionState, CloseReqDone]
                 @ (if errorGeneralProtocolError pk \<noteq> 0
                    then [CancelWrite (errorGeneralProtocolError pk)] else [])))"
proof (intro conjI allI impI)
  fix e
  assume a: "decodeFullAnswer x = Inl e \<and> errorGeneralProtocolError pk \<noteq> 0"
  then have d: "doRequest pk c1 req1 x =
      (None, newConnError (errorGeneralProtocolError pk) e,
       [WriteRequest (Method req1) (requestGzip c1 req1), ParseNextFrame False,
        MakeHeaderBlock (unat len), ReadFull (unat len), DecodeFull])"
    using assms(8-11) by (auto simp: doRequest_def Let_def)
  then show "fst (snd (doRequest pk c1 req1 x)) = newConnError (errorGeneralProtocolError pk) e"
    by simp
  from d RoundTrip_exchange [OF assms(3-7), of pk] a
  show "RoundTrip pk c req x =
                (c1, None, Some e,
                 pre @ [CloseReqDone,
                        CloseWithError (errorGeneralProtocolError pk) (ErrorText pk e)])"
    by (simp add: req1_def pre_def afterRequest_def newConnError_def)
next
  fix hfs
  assume a: "decodeFullAnswer x = Inr hfs
                \<and> (\<exists>hf\<in>set hfs. Name hf = '':status'' \<and> \<not> decimalNumeral (Value hf))"
  then have "\<exists>hf\<in>set hfs. Name hf = '':status'' \<and> Atoi (Value hf) = None"
    using Atoi_not_numeral by blast
  note m = responseHeaders_malformed [OF this]
  have d: "doRequest pk c1 req1 x =
      (None, newStreamError (errorGeneralProtocolError pk)
                (Err ''malformed non-numeric status pseudo header''),
       [WriteRequest (Method req1) (requestGzip c1 req1), ParseNextFrame False,
        MakeHeaderBlock (unat len), ReadFull (unat len), DecodeFull, ConnectionState])"
    using assms(8-11) a by (auto simp: doRequest_def Let_def m)
  then show "fst (snd (doRequest pk c1 req1 x)) =
              newStreamError (errorGeneralProtocolError pk)
                (Err ''malformed non-numeric status pseudo header'')"
    by simp
  from d RoundTrip_exchange [OF assms(3-7), of pk]
  show "RoundTrip pk c req x =
                (c1, None, Some (Err ''malformed non-numeric status pseudo header''),
                 pre @ [ConnectionState, CloseReqDone]
                 @ (if errorGeneralProtocolError pk \<noteq> 0
                    then [CancelWrite (errorGeneralProtocolError pk)] else []))"
    by (simp add: req1_def pre_def afterRequest_def newStreamError_def)
qed

theorem malformed_header_block_witness:
  "RoundTrip rfc9114 dialedClient getRequest
     (answers\<lparr>decodeFullAnswer := Inl (Err ''decoding error: invalid static table index'')\<rparr>) =
     (dialedClient, None, Some (Err ''decoding error: invalid static table index''),
      [WaitHandshakeOrContext, OpenStreamSync, GoCancellationWatcher, WriteRequest ''GET'' True,
       ParseNextFrame False, MakeHeaderBlock 0, ReadFull 0, DecodeFull, CloseReqDone,
       CloseWithError 0x101 ''decoding error: invalid static table index''])
   \<and> RoundTrip rfc9114 dialedClient getRequest
       (answers\<lparr>decodeFullAnswer := Inr [\<lparr>Name = '':status'', Value = ''2oo''\<rparr>]\<rparr>) =
     (dialedClient, None, Some (Err ''malformed non-numeric status pseudo header''),
      [WaitHandshakeOrContext, OpenStreamSync, GoCancellationWatcher, WriteRequest ''GET'' True,
       ParseNextFrame False, MakeHeaderBlock 0, ReadFull 0, DecodeFull, ConnectionState,
       CloseReqDone, CancelWrite 0x101])"
proof -
  have n: "\<not> decimalNumeral ''2oo''"
    by (simp add: decimalNumeral_def isDigit_def)
  show ?thesis
    using n malformed_header_block
       [of "answers\<lparr>decodeFullAnswer := Inl (Err ''decoding error: invalid static table index'')\<rparr>"
           dialedClient dialedClient "[]" getRequest 0 rfc9114]
      malformed_header_block
       [of "answers\<lparr>decodeFullAnswer := Inr [\<lparr>Name = '':status'', Value = ''2oo''\<rparr>]\<rparr>"
           dialedClient dialedClient "[]" getRequest 0 rfc9114]
    by (simp add: dialedClient_def freshClient_def zeroOpts_def answers_def getRequest_def
          rfc9114_def requestGzip_def header_Get_def dialOnceDo_def MethodGet0RTT_def
          maxHeaderBytes_value)
qed

subsection \<open>0-RTT requests and the handshake\<close>

lemma dialOnceDo_events:
  "set (snd (dialOnceDo c x))
     \<subseteq> {Dial, GoSetupConn, GoHandleBidirectionalStreams, GoHandleUnidirectionalStreams}"
  by (auto simp: dialOnceDo_def dial_def split: sum.splits)

lemma doRequest_events:
  "doRequest pk c req x = (rsp, rerr, td) \<Longrightarrow>
     \<exists>rest. td = WriteRequest (Method req) (requestGzip c req) # rest
        \<and> set rest \<subseteq> {ParseNextFrame False, DecodeFull, ConnectionState}
                        \<union> range MakeHeaderBlock \<union> range ReadFull"
  by (auto simp: doRequest_def Let_def
           split: option.splits sum.splits frame.splits if_splits)

lemma afterRequest_events:
  "set (afterRequest pk rerr)
     \<subseteq> {CloseReqDone} \<union> range CancelWrite \<union> range (\<lambda>(code, reason). CloseWithError code reason)"
  by (auto simp: afterRequest_def)

text \<open>
  C8. For a request with method "GET_0RTT", \<open>RoundTrip\<close> never waits for the handshake,
  every request it writes has the method "GET", and it does write the request when the
  authority matches, the dial succeeded and the stream opens. For any other request that
  gets past the dial, \<open>RoundTrip\<close> waits for the handshake or the request context: when
  the context is done first, it returns the context's error right after the wait, without
  opening a stream; when the handshake completes, it goes on to open a stream.
\<close>

theorem zero_rtt_and_handshake:
  fixes pk c req x
  defines "out \<equiv> RoundTrip pk c req x"
  defines "trace \<equiv> snd (snd (snd out))"
  defines "c1 \<equiv> fst (dialOnceDo c x)"
  defines "t0 \<equiv> snd (dialOnceDo c x)"
  shows "(Method req = MethodGet0RTT \<longrightarrow>
            WaitHandshakeOrContext \<notin> set trace
            \<and> (\<forall>m g. WriteRequest m g \<in> set trace \<longrightarrow> m = ''GET'')
            \<and> (authority x = hostname c \<and> handshakeErr c1 = None \<and> openStreamAnswer x = None \<longrightarrow>
                 WriteRequest ''GET'' (requestGzip c1 (req\<lparr>Method := ''GET''\<rparr>)) \<in> set trace))
       \<and> (Method req \<noteq> MethodGet0RTT \<and> authority x = hostname c \<and> handshakeErr c1 = None \<longrightarrow>
            (\<forall>e. handshakeAnswer x = Some e \<longrightarrow>
                   out = (c1, None, Some e, t0 @ [WaitHandshakeOrContext])
                   \<and> OpenStreamSync \<notin> set trace)
            \<and> (handshakeAnswer x = None \<longrightarrow>
                   (\<exists>rest. trace = t0 @ [WaitHandshakeOrContext, OpenStreamSync] @ rest)))"
proof -
  obtain rsp rerr td where d: "doRequest pk c1 (req\<lparr>Method := ''GET''\<rparr>) x = (rsp, rerr, td)"
    by (cases "doRequest pk c1 (req\<lparr>Method := ''GET''\<rparr>) x") auto
  obtain rsp' rerr' td' where d': "doRequest pk c1 req x = (rsp', rerr', td')"
    by (cases "doRequest pk c1 req x") auto
  have dd: "dialOnceDo c x = (c1, t0)"
    by (simp add: c1_def t0_def)
  have t0: "set t0 \<subseteq> {Dial, GoSetupConn, GoHandleBidirectionalStreams, GoHandleUnidirectionalStreams}"
    unfolding t0_def by (rule dialOnceDo_events)
  note ev = doRequest_events [OF d] afterRequest_events [of pk rerr]
  have zero: "WaitHandshakeOrContext \<notin> set trace
            \<and> (\<forall>m g. WriteRequest m g \<in> set trace \<longrightarrow> m = ''GET'')
            \<and> (authority x = hostname c \<and> handshakeErr c1 = None \<and> openStreamAnswer x = None \<longrightarrow>
                 WriteRequest ''GET'' (requestGzip c1 (req\<lparr>Method := ''GET''\<rparr>)) \<in> set trace)"
    if m: "Method req = MethodGet0RTT"
    using ev t0 m d dd
    by (auto simp: trace_def out_def RoundTrip_def Let_def split: option.splits)
  have wait: "(\<forall>e. handshakeAnswer x = Some e \<longrightarrow>
                   out = (c1, None, Some e, t0 @ [WaitHandshakeOrContext])
                   \<and> OpenStreamSync \<notin> set trace)
            \<and> (handshakeAnswer x = None \<longrightarrow>
                   (\<exists>rest. trace = t0 @ [WaitHandshakeOrContext, OpenStreamSync] @ rest))"
    if m: "Method req \<noteq> MethodGet0RTT \<and> authority x = hostname c \<and> handshakeErr c1 = None"
    using t0 m d' dd
    by (auto simp: trace_def out_def RoundTrip_def Let_def split: option.splits)
  from zero wait show ?thesis by blast
qed

theorem zero_rtt_and_handshake_witness:
  "Method (getRequest\<lparr>Method := ''GET_0RTT''\<rparr>) = MethodGet0RTT
   \<and> WaitHandshakeOrContext
       \<notin> set (snd (snd (snd (RoundTrip rfc9114 dialedClient (getRequest\<lparr>Method := ''GET_0RTT''\<rparr>)
                     (answers\<lparr>handshakeAnswer := Some (Err ''context canceled'')\<rparr>)))))
   \<and> snd (snd (snd (RoundTrip rfc9114 dialedClient (getRequest\<lparr>Method := ''GET_0RTT''\<rparr>)
                     (answers\<lparr>handshakeAnswer := Some (Err ''context canceled'')\<rparr>)))) =
       [OpenStreamSync, GoCancellationWatcher, WriteRequest ''GET'' True, ParseNextFrame False,
        MakeHeaderBlock 0, ReadFull 0, DecodeFull, ConnectionState]
   \<and> Method getRequest \<noteq> MethodGet0RTT
   \<and> RoundTrip rfc9114 dialedClient getRequest
       (answers\<lparr>handshakeAnswer := Some (Err ''context canceled'')\<rparr>) =
       (dialedClient, None, Some (Err ''context canceled''), [WaitHandshakeOrContext])"
proof -
  have m: "Method (getRequest\<lparr>Method := ''GET_0RTT''\<rparr>) = MethodGet0RTT"
    by (simp add: MethodGet0RTT_def)
  have n: "Method getRequest \<noteq> MethodGet0RTT"
    by (simp add: MethodGet0RTT_def getRequest_def)
  have d: "dialOnceDo dialedClient (answers\<lparr>handshakeAnswer := Some (Err ''context canceled'')\<rparr>)
             = (dialedClient, [])"
    by (simp add: dialOnceDo_def dialedClient_def)
  have a: "authority (answers\<lparr>handshakeAnswer := Some (Err ''context canceled'')\<rparr>)
             = hostname dialedClient
           \<and> handshakeErr dialedClient = None"
    by (simp add: answers_def dialedClient_def freshClient_def)
  have t: "snd (snd (snd (RoundTrip rfc9114 dialedClient (getRequest\<lparr>Method := ''GET_0RTT''\<rparr>)
                     (answers\<lparr>handshakeAnswer := Some (Err ''context canceled'')\<rparr>)))) =
       [OpenStreamSync, GoCancellationWatcher, WriteRequest ''GET'' True, ParseNextFrame False,
        MakeHeaderBlock 0, ReadFull 0, DecodeFull, ConnectionState]"
    by (simp add: RoundTrip_def doRequest_def dialedClient_def freshClient_def zeroOpts_def
        answers_def getRequest_def rfc9114_def requestGzip_def header_Get_def dialOnceDo_def
        MethodGet0RTT_def maxHeaderBytes_value noRequestError_def afterRequest_def)
  from zero_rtt_and_handshake
          [of "getRequest\<lparr>Method := ''GET_0RTT''\<rparr>" rfc9114 dialedClient
              "answers\<lparr>handshakeAnswer := Some (Err ''context canceled'')\<rparr>"] m
  have w: "WaitHandshakeOrContext
       \<notin> set (snd (snd (snd (RoundTrip rfc9114 dialedClient (getRequest\<lparr>Method := ''GET_0RTT''\<rparr>)
                     (answers\<lparr>handshakeAnswer := Some (Err ''context canceled'')\<rparr>)))))"
    by blast
  have h: "handshakeAnswer (answers\<lparr>handshakeAnswer := Some (Err ''context canceled'')\<rparr>)
             = Some (Err ''context canceled'')"
    by simp
  from zero_rtt_and_handshake
          [of getRequest rfc9114 dialedClient
              "answers\<lparr>handshakeAnswer := Some (Err ''context canceled'')\<rparr>"] n a h
  have r: "RoundTrip rfc9114 dialedClient getRequest
       (answers\<lparr>handshakeAnswer := Some (Err ''context canceled'')\<rparr>) =
       (dialedClient, None, Some (Err ''context canceled''), [WaitHandshakeOrContext])"
    unfolding d by simp
  from m w t n r show ?thesis by blast
qed

subsection \<open>Unidirectional streams\<close>

text \<open>
  C5. On a stream whose type is the control stream type, \<open>parseNextFrame\<close> is called
  exactly once. If the frame it returns is not a SETTINGS frame, the connection is closed
  with the code "missing settings". If it is a SETTINGS frame with the datagram flag, the
  client asked for datagrams and the connection does not support them, the connection is
  closed with the code "settings error".
\<close>

theorem control_stream:
  assumes "streamTypeAnswer s = Inr (streamTypeControlStream pk)"
  shows "(\<exists>rest. handleUnidirectionalStream pk c s =
                   [ReadStreamType, ParseNextFrame (UniStreamHijacker (opts c) \<noteq> None)] @ rest
                 \<and> (\<forall>b. ParseNextFrame b \<notin> set rest))
       \<and> (\<forall>f. uniParseAnswer s = Inr f \<and> (\<forall>d other. f \<noteq> settingsFrame d other) \<longrightarrow>
             handleUnidirectionalStream pk c s =
               [ReadStreamType, ParseNextFrame (UniStreamHijacker (opts c) \<noteq> None),
                CloseWithError (errorMissingSettings pk) ''''])
       \<and> (\<forall>other. uniParseAnswer s = Inr (settingsFrame True other) \<and> EnableDatagram (opts c)
                   \<and> \<not> supportsDatagrams s \<longrightarrow>
             handleUnidirectionalStream pk c s =
               [ReadStreamType, ParseNextFrame (UniStreamHijacker (opts c) \<noteq> None),
                ConnectionState,
                CloseWithError (errorSettingsError pk) ''missing QUIC Datagram support''])"
  using assms
  by (auto simp: handleUnidirectionalStream_def Let_def split: sum.splits frame.splits)

theorem control_stream_witness:
  "handleUnidirectionalStream rfc9114 datagramClient
     ((streamOfType 0)\<lparr>uniParseAnswer := Inr (dataFrame 3)\<rparr>) =
     [ReadStreamType, ParseNextFrame False, CloseWithError 0x10a '''']
   \<and> handleUnidirectionalStream rfc9114 datagramClient (streamOfType 0) =
     [ReadStreamType, ParseNextFrame False, ConnectionState,
      CloseWithError 0x109 ''missing QUIC Datagram support'']"
  using control_stream [of "(streamOfType 0)\<lparr>uniParseAnswer := Inr (dataFrame 3)\<rparr>" rfc9114
                           datagramClient]
    control_stream [of "streamOfType 0" rfc9114 datagramClient]
  by (simp add: streamOfType_def rfc9114_def datagramClient_def dialedClient_def
        freshClient_def zeroOpts_def)

text \<open>
  C6, as the claim states it, fails: with a \<open>UniStreamHijacker\<close> configured, a stream of
  the unrecognized type 0x54 is not handed to the callback; its read side is canceled.
\<close>

theorem unrecognized_stream_not_delegated:
  "UniStreamHijacker (opts hijackingClient) \<noteq> None
   \<and> handleUnidirectionalStream rfc9114 hijackingClient (streamOfType 0x54) =
       [ReadStreamType, CancelRead 0x103]
   \<and> \<not> delegatedToHijacker (handleUnidirectionalStream rfc9114 hijackingClient (streamOfType 0x54))"
  by (simp add: handleUnidirectionalStream_def delegatedToHijacker_def streamOfType_def
        rfc9114_def hijackingClient_def dialedClient_def freshClient_def zeroOpts_def)

text \<open>
  C6, amended. A stream whose type is none of the control, QPACK encoder, QPACK decoder
  and push stream types has its read side canceled with the code "stream creation
  error", whether or not a \<open>UniStreamHijacker\<close> is configured: the callback is not given
  the stream and the connection is not closed. A push stream closes the connection with
  the code "id error".
\<close>

theorem other_streams:
  assumes "streamTypeAnswer s = Inr t" and "t \<noteq> streamTypeControlStream pk"
    and "t \<noteq> streamTypeQPACKEncoderStream pk" and "t \<noteq> streamTypeQPACKDecoderStream pk"
  shows "(t \<noteq> streamTypePushStream pk \<longrightarrow>
            handleUnidirectionalStream pk c s =
              [ReadStreamType, CancelRead (errorStreamCreationError pk)]
            \<and> \<not> delegatedToHijacker (handleUnidirectionalStream pk c s)
            \<and> (\<forall>code reason.
                  CloseWithError code reason \<notin> set (handleUnidirectionalStream pk c s)))
       \<and> (t = streamTypePushStream pk \<longrightarrow>
            handleUnidirectionalStream pk c s =
              [ReadStreamType, CloseWithError (errorIDError pk) ''''])"
  using assms by (simp add: handleUnidirectionalStream_def delegatedToHijacker_def)

theorem other_streams_witness:
  "handleUnidirectionalStream rfc9114 hijackingClient (streamOfType 0x21) =
     [ReadStreamType, CancelRead 0x103]
   \<and> handleUnidirectionalStream rfc9114 dialedClient (streamOfType 0x21) =
     [ReadStreamType, CancelRead 0x103]
   \<and> handleUnidirectionalStream rfc9114 dialedClient (streamOfType 1) =
     [ReadStreamType, CloseWithError 0x108 '''']"
  using other_streams [of "streamOfType 0x21" "0x21" rfc9114 hijackingClient]
    other_streams [of "streamOfType 0x21" "0x21" rfc9114 dialedClient]
    other_streams [of "streamOfType 1" 1 rfc9114 dialedClient]
  by (simp add: streamOfType_def rfc9114_def)

subsection \<open>The response: content length and transparent gzip\<close>

lemma responseHeaders_fields:
  "responseHeaders pk st res hfs = Inr res' \<Longrightarrow>
     Header res' k =
       (if fieldValues hfs k = [] then Header res k
        else Some ((case Header res k of None \<Rightarrow> [] | Some vs \<Rightarrow> vs) @ fieldValues hfs k))"
proof (induction hfs arbitrary: res)
  case Nil
  then show ?case by (simp add: fieldValues_def)
next
  case (Cons hf hfs)
  show ?case
  proof (cases "Name hf = '':status''")
    case True
    with Cons.prems obtain status where
      "responseHeaders pk st (res\<lparr>StatusCode := status, Status := Value hf @ '' '' @ st status\<rparr>) hfs
         = Inr res'"
      by (auto split: option.splits)
    from Cons.IH [OF this] True show ?thesis
      by (simp add: fieldValues_def)
  next
    case False
    with Cons.prems have
      "responseHeaders pk st (res\<lparr>Header := header_Add (Header res) (Name hf) (Value hf)\<rparr>) hfs
         = Inr res'"
      by simp
    from Cons.IH [OF this] False show ?thesis
      by (auto simp: fieldValues_def header_Add_def Let_def split: option.splits)
  qed
qed

lemma responseHeaders_total:
  "\<forall>hf\<in>set hfs. Name hf = '':status'' \<longrightarrow> Atoi (Value hf) \<noteq> None \<Longrightarrow>
     \<exists>res'. responseHeaders pk st res hfs = Inr res'"
  by (induction hfs arbitrary: res) (auto split: option.splits)

lemma canonical_keys:
  "CanonicalMIMEHeaderKey ''Content-Encoding'' = ''Content-Encoding''"
  "CanonicalMIMEHeaderKey ''Content-Length'' = ''Content-Length''"
  "CanonicalMIMEHeaderKey ''Accept-Encoding'' = ''Accept-Encoding''"
  "CanonicalMIMEHeaderKey ''Range'' = ''Range''"
  by code_simp+

lemma header_Get_first:
  "CanonicalMIMEHeaderKey k = k \<Longrightarrow>
     header_Get h k = (case h k of None \<Rightarrow> '''' | Some vs \<Rightarrow> concat (take 1 vs))"
  by (auto simp: header_Get_def split: option.splits list.splits)

lemma responseHeaders_keeps:
  "responseHeaders pk st res hfs = Inr res' \<Longrightarrow>
     ContentLength res' = ContentLength res \<and> Uncompressed res' = Uncompressed res"
  by (induction hfs arbitrary: res) (auto split: if_splits option.splits)

lemma doRequest_success:
  assumes "writeRequestAnswer x = None" and "parseNextFrameAnswer x = Inr (headersFrame len)"
    and "len \<le> maxHeaderBytes c" and "readFullAnswer x = None"
    and "decodeFullAnswer x = Inr hfs"
    and "\<forall>hf\<in>set hfs. Name hf = '':status'' \<longrightarrow> Atoi (Value hf) \<noteq> None"
  shows "\<exists>res1. doRequest pk c req x =
           (Some (setBody (requestGzip c req) (setContentLength req res1)), noRequestError,
            [WriteRequest (Method req) (requestGzip c req), ParseNextFrame False,
             MakeHeaderBlock (unat len), ReadFull (unat len), DecodeFull, ConnectionState])
         \<and> ContentLength res1 = 0 \<and> \<not> Uncompressed res1
         \<and> (\<forall>k. Header res1 k = (if fieldValues hfs k = [] then None else Some (fieldValues hfs k)))"
proof -
  let ?res = "\<lparr>Proto = ''HTTP/3'', ProtoMajor = 3, Header = Map.empty, TLS = tlsState x,
               StatusCode = 0, Status = '''', ContentLength = 0, Body = None,
               Uncompressed = False\<rparr>"
  from responseHeaders_total [OF assms(6)] obtain res1
    where r: "responseHeaders pk (StatusText x) ?res hfs = Inr res1"
    by blast
  have "doRequest pk c req x =
           (Some (setBody (requestGzip c req) (setContentLength req res1)), noRequestError,
            [WriteRequest (Method req) (requestGzip c req), ParseNextFrame False,
             MakeHeaderBlock (unat len), ReadFull (unat len), DecodeFull, ConnectionState])"
    using assms(1-5) r by (auto simp: doRequest_def Let_def)
  moreover have "ContentLength res1 = 0 \<and> \<not> Uncompressed res1"
    using responseHeaders_keeps [OF r] by simp
  moreover have "\<forall>k. Header res1 k = (if fieldValues hfs k = [] then None else Some (fieldValues hfs k))"
    using responseHeaders_fields [OF r] by simp
  ultimately show ?thesis by blast
qed

lemma setBody_StatusCode: "StatusCode (setBody g res) = StatusCode res"
  by (simp add: setBody_def)

lemma setContentLength_keeps:
  "StatusCode (setContentLength req res) = StatusCode res"
  "Header (setContentLength req res) = Header res"
  "Body (setContentLength req res) = Body res"
  "Uncompressed (setContentLength req res) = Uncompressed res"
  by (simp_all add: setContentLength_def Let_def split: option.splits)

lemma setContentLength_value:
  "ContentLength (setContentLength req res) =
     (if Header res ''Transfer-Encoding'' \<noteq> None
         \<or> (100 \<le> StatusCode res \<and> StatusCode res < 200) \<or> StatusCode res = 204
         \<or> (Method req = ''CONNECT'' \<and> 200 \<le> StatusCode res \<and> StatusCode res < 300)
      then ContentLength res
      else (case Header res ''Content-Length'' of
              Some [v] \<Rightarrow> (case ParseInt v 64 of Some n \<Rightarrow> n | None \<Rightarrow> - 1)
            | _ \<Rightarrow> - 1))"
  by (auto simp: setContentLength_def Let_def split: option.splits list.splits)

lemma example_keys:
  "CanonicalMIMEHeaderKey ''content-length'' = ''Content-Length''"
  "CanonicalMIMEHeaderKey ''content-encoding'' = ''Content-Encoding''"
  by code_simp+

lemma example_numbers:
  "Atoi ''200'' = Some 200" "Atoi ''204'' = Some 204"
  "ParseInt ''10'' 64 = Some 10" "ParseInt ''17'' 64 = Some 17"
  by (simp_all add: Atoi_def ParseInt_def isDigit_def)

lemmas example_defs =
  doRequest_def answers_def getRequest_def dialedClient_def freshClient_def zeroOpts_def
  rfc9114_def requestGzip_def header_Get_def header_Add_def header_Del_def setBody_def
  setContentLength_def maxHeaderBytes_value ok200_def contentLength_def gzipEncoding_def
  example_keys example_numbers canonical_keys Let_def

text \<open>
  C2. Let the exchange get as far as a decoded header block whose \<open>:status\<close> values
  all parse. Then \<open>doRequest\<close> returns a response and no error, whatever the
  Content-Length fields are, and the content length of the response is: \<open>-1\<close> when
  the body is transparently decompressed; otherwise the zero value of the field, set from
  no header, when a Transfer-Encoding field is present or the status is 1xx or 204 or the
  request is a CONNECT with a 2xx status; otherwise the parsed value of the Content-Length
  field when there is exactly one and it parses as a 64-bit integer, and \<open>-1\<close> when
  there is none, more than one, or one that does not parse.
\<close>

theorem content_length_resolution:
  assumes "writeRequestAnswer x = None" and "parseNextFrameAnswer x = Inr (headersFrame len)"
    and "len \<le> maxHeaderBytes c" and "readFullAnswer x = None"
    and "decodeFullAnswer x = Inr hfs"
    and "\<forall>hf\<in>set hfs. Name hf = '':status'' \<longrightarrow> Atoi (Value hf) \<noteq> None"
  shows "\<exists>res. fst (doRequest pk c req x) = Some res
           \<and> fst (snd (doRequest pk c req x)) = noRequestError
           \<and> (let exempt =
                    (fieldValues hfs ''Transfer-Encoding'' \<noteq> []
                     \<or> (100 \<le> StatusCode res \<and> StatusCode res < 200)
                     \<or> StatusCode res = 204
                     \<or> (Method req = ''CONNECT'' \<and> 200 \<le> StatusCode res \<and> StatusCode res < 300));
                   gunzip =
                    (requestGzip c req \<and> take 1 (fieldValues hfs ''Content-Encoding'') = [''gzip''])
               in ContentLength res =
                    (if gunzip then - 1
                     else if exempt then 0
                     else (case fieldValues hfs ''Content-Length'' of
                             [v] \<Rightarrow> (case ParseInt v 64 of Some n \<Rightarrow> n | None \<Rightarrow> - 1)
                           | _ \<Rightarrow> - 1)))"
proof -
  from doRequest_success [OF assms, of pk req] obtain res1 where
    d: "doRequest pk c req x =
           (Some (setBody (requestGzip c req) (setContentLength req res1)), noRequestError,
            [WriteRequest (Method req) (requestGzip c req), ParseNextFrame False,
             MakeHeaderBlock (unat len), ReadFull (unat len), DecodeFull, ConnectionState])"
    and z: "ContentLength res1 = 0"
    and h: "\<And>k. Header res1 k = (if fieldValues hfs k = [] then None else Some (fieldValues hfs k))"
    by blast
  let ?res = "setBody (requestGzip c req) (setContentLength req res1)"
  have g: "header_Get (Header res1) ''Content-Encoding'' = ''gzip''
             \<longleftrightarrow> take 1 (fieldValues hfs ''Content-Encoding'') = [''gzip'']"
    by (cases "fieldValues hfs ''Content-Encoding''")
       (simp_all add: header_Get_first canonical_keys h)
  have s: "StatusCode ?res = StatusCode res1"
    by (simp add: setBody_StatusCode setContentLength_keeps)
  have te: "Header res1 ''Transfer-Encoding'' \<noteq> None \<longleftrightarrow> fieldValues hfs ''Transfer-Encoding'' \<noteq> []"
    by (simp add: h)
  have cl: "(case Header res1 ''Content-Length'' of
              Some [v] \<Rightarrow> (case ParseInt v 64 of Some n \<Rightarrow> n | None \<Rightarrow> - 1)
            | _ \<Rightarrow> - 1) =
            (case fieldValues hfs ''Content-Length'' of
                             [v] \<Rightarrow> (case ParseInt v 64 of Some n \<Rightarrow> n | None \<Rightarrow> - 1)
                           | _ \<Rightarrow> - 1)"
    by (simp add: h)
  have "ContentLength ?res =
          (if requestGzip c req \<and> take 1 (fieldValues hfs ''Content-Encoding'') = [''gzip'']
           then - 1 else ContentLength (setContentLength req res1))"
    using g by (simp add: setBody_def setContentLength_keeps)
  then have "let exempt =
                    (fieldValues hfs ''Transfer-Encoding'' \<noteq> []
                     \<or> (100 \<le> StatusCode ?res \<and> StatusCode ?res < 200)
                     \<or> StatusCode ?res = 204
                     \<or> (Method req = ''CONNECT'' \<and> 200 \<le> StatusCode ?res \<and> StatusCode ?res < 300));
                   gunzip =
                    (requestGzip c req \<and> take 1 (fieldValues hfs ''Content-Encoding'') = [''gzip''])
               in ContentLength ?res =
                    (if gunzip then - 1
                     else if exempt then 0
                     else (case fieldValues hfs ''Content-Length'' of
                             [v] \<Rightarrow> (case ParseInt v 64 of Some n \<Rightarrow> n | None \<Rightarrow> - 1)
                           | _ \<Rightarrow> - 1))"
    unfolding s Let_def setContentLength_value te cl z by simp
  with d show ?thesis by simp
qed

theorem content_length_resolution_witness:
  "map_option (\<lambda>res. (StatusCode res, ContentLength res))
     (fst (doRequest rfc9114 dialedClient getRequest
            (answers\<lparr>decodeFullAnswer := Inr [ok200, contentLength ''10'', contentLength ''20'']\<rparr>)))
     = Some (200, - 1)
   \<and> map_option (\<lambda>res. (StatusCode res, ContentLength res))
     (fst (doRequest rfc9114 dialedClient getRequest
            (answers\<lparr>decodeFullAnswer := Inr [ok200, contentLength ''10'']\<rparr>)))
     = Some (200, 10)
   \<and> map_option (\<lambda>res. (StatusCode res, ContentLength res))
     (fst (doRequest rfc9114 dialedClient getRequest
            (answers\<lparr>decodeFullAnswer :=
               Inr [\<lparr>Name = '':status'', Value = ''204''\<rparr>, contentLength ''17'']\<rparr>)))
     = Some (204, 0)"
  using content_length_resolution
          [of "answers\<lparr>decodeFullAnswer := Inr [ok200, contentLength ''10'', contentLength ''20'']\<rparr>"
              0 dialedClient "[ok200, contentLength ''10'', contentLength ''20'']" rfc9114 getRequest]
    content_length_resolution
          [of "answers\<lparr>decodeFullAnswer := Inr [ok200, contentLength ''10'']\<rparr>"
              0 dialedClient "[ok200, contentLength ''10'']" rfc9114 getRequest]
    content_length_resolution
          [of "answers\<lparr>decodeFullAnswer :=
               Inr [\<lparr>Name = '':status'', Value = ''204''\<rparr>, contentLength ''17'']\<rparr>"
              0 dialedClient "[\<lparr>Name = '':status'', Value = ''204''\<rparr>, contentLength ''17'']"
              rfc9114 getRequest]
  by (simp add: example_defs)

text \<open>
  C7, as the claim states it, fails: a request that sets Accept-Encoding to the empty
  string has the header set, and \<open>doRequest\<close> still asks \<open>WriteRequest\<close> for gzip,
  since \<open>Header.Get\<close> returns the empty string for it.
\<close>

theorem empty_accept_encoding_advertises_gzip:
  "ReqHeader emptyAcceptEncoding ''Accept-Encoding'' = Some ['''']
   \<and> \<not> DisableCompression (opts dialedClient) \<and> Method emptyAcceptEncoding \<noteq> ''HEAD''
   \<and> doRequest rfc9114 dialedClient emptyAcceptEncoding
        (answers\<lparr>writeRequestAnswer := Some (Err ''closed'')\<rparr>) =
       (None, \<lparr>err = Some (Err ''closed''), streamErr = 0x102, connErr = 0\<rparr>,
        [WriteRequest ''GET'' True])"
  by (simp add: emptyAcceptEncoding_def doRequest_def requestGzip_def header_Get_def
        canonical_keys getRequest_def dialedClient_def freshClient_def zeroOpts_def answers_def
        rfc9114_def newStreamError_def)

text \<open>
  C7, amended. \<open>doRequest\<close> asks \<open>WriteRequest\<close> for gzip exactly when compression is
  not disabled, the method is not HEAD, and the first Accept-Encoding value and the first
  Range value of the request are both empty or absent. When it did and the first
  Content-Encoding value of the response is "gzip", the response has no Content-Encoding
  and no Content-Length header, content length \<open>-1\<close>, and a gzip reader around the body;
  otherwise it has the plain body and every header of the block.
\<close>

theorem transparent_gzip:
  assumes "writeRequestAnswer x = None" and "parseNextFrameAnswer x = Inr (headersFrame len)"
    and "len \<le> maxHeaderBytes c" and "readFullAnswer x = None"
    and "decodeFullAnswer x = Inr hfs"
    and "\<forall>hf\<in>set hfs. Name hf = '':status'' \<longrightarrow> Atoi (Value hf) \<noteq> None"
  shows "requestGzip c req =
           (\<not> DisableCompression (opts c) \<and> Method req \<noteq> ''HEAD''
            \<and> firstValue (ReqHeader req ''Accept-Encoding'') = ''''
            \<and> firstValue (ReqHeader req ''Range'') = '''')
       \<and> (\<exists>res rest.
             doRequest pk c req x =
               (Some res, noRequestError, WriteRequest (Method req) (requestGzip c req) # rest)
             \<and> (if requestGzip c req \<and> take 1 (fieldValues hfs ''Content-Encoding'') = [''gzip'']
                 then Header res ''Content-Encoding'' = None \<and> Header res ''Content-Length'' = None
                      \<and> ContentLength res = - 1 \<and> Body res = Some (gzipReader responseBody)
                      \<and> Uncompressed res
                 else Body res = Some responseBody \<and> \<not> Uncompressed res
                      \<and> (\<forall>k. Header res k =
                            (if fieldValues hfs k = [] then None else Some (fieldValues hfs k)))))"
proof -
  have a: "requestGzip c req =
           (\<not> DisableCompression (opts c) \<and> Method req \<noteq> ''HEAD''
            \<and> firstValue (ReqHeader req ''Accept-Encoding'') = ''''
            \<and> firstValue (ReqHeader req ''Range'') = '''')"
    by (simp add: requestGzip_def header_Get_def firstValue_def canonical_keys)
  from doRequest_success [OF assms, of pk req] obtain res1 where
    d: "doRequest pk c req x =
           (Some (setBody (requestGzip c req) (setContentLength req res1)), noRequestError,
            [WriteRequest (Method req) (requestGzip c req), ParseNextFrame False,
             MakeHeaderBlock (unat len), ReadFull (unat len), DecodeFull, ConnectionState])"
    and u: "\<not> Uncompressed res1"
    and h: "\<And>k. Header res1 k = (if fieldValues hfs k = [] then None else Some (fieldValues hfs k))"
    by blast
  have g: "header_Get (Header res1) ''Content-Encoding'' = ''gzip''
             \<longleftrightarrow> take 1 (fieldValues hfs ''Content-Encoding'') = [''gzip'']"
    by (cases "fieldValues hfs ''Content-Encoding''")
       (simp_all add: header_Get_first canonical_keys h)
  let ?res = "setBody (requestGzip c req) (setContentLength req res1)"
  have f: "if requestGzip c req \<and> take 1 (fieldValues hfs ''Content-Encoding'') = [''gzip'']
                 then Header ?res ''Content-Encoding'' = None \<and> Header ?res ''Content-Length'' = None
                      \<and> ContentLength ?res = - 1 \<and> Body ?res = Some (gzipReader responseBody)
                      \<and> Uncompressed ?res
                 else Body ?res = Some responseBody \<and> \<not> Uncompressed ?res
                      \<and> (\<forall>k. Header ?res k =
                            (if fieldValues hfs k = [] then None else Some (fieldValues hfs k)))"
    using g u by (simp add: setBody_def setContentLength_keeps header_Del_def canonical_keys h)
  have "\<exists>res rest.
             doRequest pk c req x =
               (Some res, noRequestError, WriteRequest (Method req) (requestGzip c req) # rest)
             \<and> (if requestGzip c req \<and> take 1 (fieldValues hfs ''Content-Encoding'') = [''gzip'']
                 then Header res ''Content-Encoding'' = None \<and> Header res ''Content-Length'' = None
                      \<and> ContentLength res = - 1 \<and> Body res = Some (gzipReader responseBody)
                      \<and> Uncompressed res
                 else Body res = Some responseBody \<and> \<not> Uncompressed res
                      \<and> (\<forall>k. Header res k =
                            (if fieldValues hfs k = [] then None else Some (fieldValues hfs k))))"
    using d f by blast
  with a show ?thesis by (rule conjI)
qed

theorem transparent_gzip_witness:
  "map_option (\<lambda>res. (Header res ''Content-Encoding'', Header res ''Content-Length'',
                       ContentLength res, Body res, Uncompressed res))
     (fst (doRequest rfc9114 dialedClient getRequest
            (answers\<lparr>decodeFullAnswer := Inr [ok200, contentLength ''10'', gzipEncoding]\<rparr>)))
     = Some (None, None, - 1, Some (gzipReader responseBody), True)
   \<and> map_option (\<lambda>res. (Header res ''Content-Encoding'', Header res ''Content-Length'',
                       ContentLength res, Body res, Uncompressed res))
     (fst (doRequest rfc9114 dialedClient emptyAcceptEncoding
            (answers\<lparr>decodeFullAnswer := Inr [ok200, contentLength ''10'', gzipEncoding]\<rparr>)))
     = Some (None, None, - 1, Some (gzipReader responseBody), True)
   \<and> map_option (\<lambda>res. (Header res ''Content-Encoding'', Header res ''Content-Length'',
                       ContentLength res, Body res, Uncompressed res))
     (fst (doRequest rfc9114 dialedClient (getRequest\<lparr>Method := ''HEAD''\<rparr>)
            (answers\<lparr>decodeFullAnswer := Inr [ok200, contentLength ''10'', gzipEncoding]\<rparr>)))
     = Some (Some [''gzip''], Some [''10''], 10, Some responseBody, False)"
  using transparent_gzip
          [of "answers\<lparr>decodeFullAnswer := Inr [ok200, contentLength ''10'', gzipEncoding]\<rparr>"
              0 dialedClient "[ok200, contentLength ''10'', gzipEncoding]" getRequest rfc9114]
    transparent_gzip
          [of "answers\<lparr>decodeFullAnswer := Inr [ok200, contentLength ''10'', gzipEncoding]\<rparr>"
              0 dialedClient "[ok200, contentLength ''10'', gzipEncoding]" emptyAcceptEncoding rfc9114]
    transparent_gzip
          [of "answers\<lparr>decodeFullAnswer := Inr [ok200, contentLength ''10'', gzipEncoding]\<rparr>"
              0 dialedClient "[ok200, contentLength ''10'', gzipEncoding]"
              "getRequest\<lparr>Method := ''HEAD''\<rparr>" rfc9114]
  by (simp add: example_defs emptyAcceptEncoding_def)

end
